theory Spec2Isabelle
  imports Complex_Main
begin

section \<open>Values of a column\<close>

text \<open>
  The columns of the data frame hold double-precision numbers.  A value is modelled as a
  real number or one of the three special values of the format.  \<open>NaN\<close> is what pandas
  uses for "no value".  Rounding and overflow are not modelled (a finite value is an exact
  real), and a zero denominator is taken as positive zero.
\<close>

datatype pyfloat = Fin real | PInf | NInf | NaN

text \<open>The infinity with the sign of \<open>a\<close>; a zero \<open>a\<close> gives \<open>NaN\<close> (as in \<open>0 * inf\<close>, \<open>0 / 0\<close>).\<close>

definition inf_sign :: "real \<Rightarrow> pyfloat" where
  "inf_sign a = (if a = 0 then NaN else if 0 < a then PInf else NInf)"

fun fneg :: "pyfloat \<Rightarrow> pyfloat" where
  "fneg (Fin a) = Fin (- a)"
| "fneg PInf = NInf"
| "fneg NInf = PInf"
| "fneg NaN = NaN"

fun fadd :: "pyfloat \<Rightarrow> pyfloat \<Rightarrow> pyfloat" where
  "fadd NaN y = NaN"
| "fadd x NaN = NaN"
| "fadd (Fin a) (Fin b) = Fin (a + b)"
| "fadd (Fin a) y = y"
| "fadd x (Fin b) = x"
| "fadd PInf PInf = PInf"
| "fadd NInf NInf = NInf"
| "fadd PInf NInf = NaN"
| "fadd NInf PInf = NaN"

definition fsub :: "pyfloat \<Rightarrow> pyfloat \<Rightarrow> pyfloat" where
  "fsub x y = fadd x (fneg y)"

fun fmul :: "pyfloat \<Rightarrow> pyfloat \<Rightarrow> pyfloat" where
  "fmul NaN y = NaN"
| "fmul x NaN = NaN"
| "fmul (Fin a) (Fin b) = Fin (a * b)"
| "fmul (Fin a) PInf = inf_sign a"
| "fmul (Fin a) NInf = inf_sign (- a)"
| "fmul PInf (Fin b) = inf_sign b"
| "fmul NInf (Fin b) = inf_sign (- b)"
| "fmul PInf PInf = PInf"
| "fmul NInf NInf = PInf"
| "fmul PInf NInf = NInf"
| "fmul NInf PInf = NInf"

fun fdiv :: "pyfloat \<Rightarrow> pyfloat \<Rightarrow> pyfloat" where
  "fdiv NaN y = NaN"
| "fdiv x NaN = NaN"
| "fdiv (Fin a) (Fin b) = (if b = 0 then inf_sign a else Fin (a / b))"
| "fdiv (Fin a) y = Fin 0"
| "fdiv PInf (Fin b) = (if 0 \<le> b then PInf else NInf)"
| "fdiv NInf (Fin b) = (if 0 \<le> b then NInf else PInf)"
| "fdiv x y = NaN"

text \<open>\<open>flt x y\<close> is the comparison \<open>x < y\<close>: false as soon as one side is \<open>NaN\<close>.\<close>

fun flt :: "pyfloat \<Rightarrow> pyfloat \<Rightarrow> bool" where
  "flt NaN y = False"
| "flt x NaN = False"
| "flt (Fin a) (Fin b) = (a < b)"
| "flt (Fin a) PInf = True"
| "flt (Fin a) NInf = False"
| "flt NInf (Fin b) = True"
| "flt NInf PInf = True"
| "flt NInf NInf = False"
| "flt PInf y = False"

definition fgt :: "pyfloat \<Rightarrow> pyfloat \<Rightarrow> bool" where
  "fgt x y = flt y x"

fun fsqrt :: "pyfloat \<Rightarrow> pyfloat" where
  "fsqrt (Fin a) = (if a < 0 then NaN else Fin (sqrt a))"
| "fsqrt PInf = PInf"
| "fsqrt NInf = NaN"
| "fsqrt NaN = NaN"

definition notna :: "pyfloat \<Rightarrow> bool" where
  "notna x = (x \<noteq> NaN)"

section \<open>The pandas operations used by the program\<close>

text \<open>
  A column (a pandas Series) is the list of its values in date order.  The operations
  below are those of pandas that \<open>calcular_metricas\<close> calls, with the default arguments
  the program leaves in place.
\<close>

type_synonym series = "pyfloat list"

text \<open>\<open>Series.ffill\<close>: a missing value takes the last value seen before it.\<close>

fun ffill_from :: "pyfloat \<Rightarrow> series \<Rightarrow> series" where
  "ffill_from v [] = []"
| "ffill_from v (x # xs) = (if x = NaN then v # ffill_from v xs else x # ffill_from x xs)"

definition ffill :: "series \<Rightarrow> series" where
  "ffill xs = ffill_from NaN xs"

text \<open>\<open>Series.shift(1)\<close>: every value moves one date later, the first date gets \<open>NaN\<close>.\<close>

definition shift1 :: "series \<Rightarrow> series" where
  "shift1 xs = take (length xs) (NaN # xs)"

text \<open>
  \<open>Series.pct_change()\<close> with its default \<open>fill_method='pad'\<close>: the series is forward
  filled, then divided by its shift, minus one.
\<close>

definition pct_change :: "series \<Rightarrow> series" where
  "pct_change xs =
     (let d = ffill xs in map2 (\<lambda>a b. fsub (fdiv a b) (Fin 1)) d (shift1 d))"

text \<open>The running product of numpy, from the product \<open>p\<close> of what came before.\<close>

fun np_cumprod_from :: "pyfloat \<Rightarrow> series \<Rightarrow> series" where
  "np_cumprod_from p [] = []"
| "np_cumprod_from p (x # xs) = fmul p x # np_cumprod_from (fmul p x) xs"

fun np_cumprod :: "series \<Rightarrow> series" where
  "np_cumprod [] = []"
| "np_cumprod (x # xs) = x # np_cumprod_from x xs"

text \<open>
  \<open>Series.cumprod()\<close> with its default \<open>skipna=True\<close>: a missing value counts as the
  factor 1 in the running product, and the result is missing where the input is.
\<close>

definition cumprod :: "series \<Rightarrow> series" where
  "cumprod xs =
     map2 (\<lambda>x p. if x = NaN then NaN else p) xs
       (np_cumprod (map (\<lambda>x. if x = NaN then Fin 1 else x) xs))"

text \<open>The observations of the window of width \<open>W\<close> that ends at date \<open>t\<close> (at most \<open>W\<close>).\<close>

definition janela :: "nat \<Rightarrow> nat \<Rightarrow> 'a list \<Rightarrow> 'a list" where
  "janela W t xs = drop (if W \<le> t + 1 then t + 1 - W else 0) (take (t + 1) xs)"

primrec fsum :: "series \<Rightarrow> pyfloat" where
  "fsum [] = Fin 0"
| "fsum (x # xs) = fadd x (fsum xs)"

text \<open>
  \<open>Series.rolling(window=W).mean()\<close>: \<open>min_periods\<close> defaults to \<open>W\<close>, so a date whose
  window holds fewer than \<open>W\<close> values that are not missing has no mean.  Each window is
  summed on its own; pandas updates a running sum from one date to the next, which is the
  same sum as long as the values are finite.
\<close>

definition mean_of :: "nat \<Rightarrow> series \<Rightarrow> pyfloat" where
  "mean_of W w =
     (let obs = filter notna w in
      if length obs < W then NaN else fdiv (fsum obs) (Fin (real (length obs))))"

definition rolling_mean :: "nat \<Rightarrow> series \<Rightarrow> series" where
  "rolling_mean W xs = map (\<lambda>t. mean_of W (janela W t xs)) [0..<length xs]"

text \<open>
  \<open>Series.rolling(window=W).std()\<close>: the sample standard deviation (one degree of
  freedom removed) of the window, under the same \<open>min_periods\<close>.
\<close>

definition std_of :: "nat \<Rightarrow> series \<Rightarrow> pyfloat" where
  "std_of W w =
     (let obs = filter notna w in
      if length obs < W then NaN
      else
        (let m = fdiv (fsum obs) (Fin (real (length obs)));
             sq = map (\<lambda>x. fmul (fsub x m) (fsub x m)) obs
         in fsqrt (fdiv (fsum sq) (Fin (real (length obs) - 1)))))"

definition rolling_std :: "nat \<Rightarrow> series \<Rightarrow> series" where
  "rolling_std W xs = map (\<lambda>t. std_of W (janela W t xs)) [0..<length xs]"

section \<open>Data frames, errors, the store\<close>

text \<open>
  A data frame maps a column name to its column.  An exception of Python is a value of
  \<open>erro\<close>.  The program passes the frame by reference and assigns columns to it, so a
  frame lives in a store, at an address.
\<close>

datatype erro = KeyError | IndexError

type_synonym dataframe = "string \<rightharpoonup> series"

type_synonym ref = nat

type_synonym store = "ref \<Rightarrow> dataframe"

definition bindE :: "erro + 'a \<Rightarrow> ('a \<Rightarrow> erro + 'b) \<Rightarrow> erro + 'b" where
  "bindE m f = (case m of Inl e \<Rightarrow> Inl e | Inr v \<Rightarrow> f v)"

text \<open>\<open>df[c]\<close>: the column, or \<open>KeyError\<close>.\<close>

definition coluna :: "dataframe \<Rightarrow> string \<Rightarrow> erro + series" where
  "coluna df c = (case df c of None \<Rightarrow> Inl KeyError | Some xs \<Rightarrow> Inr xs)"

text \<open>\<open>s.iloc[i]\<close>: a negative position counts from the end; out of range is \<open>IndexError\<close>.\<close>

definition iloc :: "series \<Rightarrow> int \<Rightarrow> erro + pyfloat" where
  "iloc xs i =
     (if - int (length xs) \<le> i \<and> i < int (length xs)
      then Inr (xs ! nat (if i < 0 then i + int (length xs) else i))
      else Inl IndexError)"

section \<open>The functions of Investimento.py\<close>

text \<open>
  The body of \<open>calcular_metricas\<close> on the contents of the frame: five column
  assignments, each reading the frame as the assignments before it left it.
\<close>

definition calcular_metricas_corpo :: "dataframe \<Rightarrow> erro + dataframe" where
  "calcular_metricas_corpo df =
     bindE (coluna df ''Adj Close'') (\<lambda>adj.
     let df1 = df(''Retorno_Diario'' \<mapsto> pct_change adj) in
     bindE (coluna df1 ''Retorno_Diario'') (\<lambda>ret.
     let df2 = df1(''Retorno_Acumulado'' \<mapsto>
                 map (\<lambda>x. fsub x (Fin 1)) (cumprod (map (\<lambda>x. fadd (Fin 1) x) ret))) in
     bindE (coluna df2 ''Adj Close'') (\<lambda>adj50.
     let df3 = df2(''Media_Movel_50'' \<mapsto> rolling_mean 50 adj50) in
     bindE (coluna df3 ''Adj Close'') (\<lambda>adj200.
     let df4 = df3(''Media_Movel_200'' \<mapsto> rolling_mean 200 adj200) in
     bindE (coluna df4 ''Retorno_Diario'') (\<lambda>ret30.
     let df5 = df4(''Volatilidade'' \<mapsto>
                 map (\<lambda>x. fmul x (Fin (sqrt 252))) (rolling_std 30 ret30)) in
     Inr df5)))))"

text \<open>
  \<open>calcular_metricas(df)\<close>: the assignments are made to the frame at the address given,
  and that address is what the function returns.  An exception can only come from the
  first read, before any assignment, so a failed call leaves the store as it was.
\<close>

definition calcular_metricas :: "ref \<Rightarrow> store \<Rightarrow> erro + (ref \<times> store)" where
  "calcular_metricas r s =
     bindE (calcular_metricas_corpo (s r)) (\<lambda>df'. Inr (r, s(r := df')))"

text \<open>The arrow that \<open>analisar_tendencia\<close> returns beside the label (an emoji in the source).\<close>

datatype seta = SetaCima | SetaBaixo

definition analisar_tendencia :: "dataframe \<Rightarrow> erro + (string \<times> seta \<times> pyfloat)" where
  "analisar_tendencia df =
     bindE (coluna df ''Media_Movel_50'') (\<lambda>c50.
     bindE (iloc c50 (- 1)) (\<lambda>m50.
     bindE (coluna df ''Media_Movel_200'') (\<lambda>c200.
     bindE (iloc c200 (- 1)) (\<lambda>m200.
       if fgt m50 m200
       then Inr (''Crescimento'', SetaCima, fmul (fsub (fdiv m50 m200) (Fin 1)) (Fin 100))
       else Inr (''Queda'', SetaBaixo, fmul (fsub (Fin 1) (fdiv m50 m200)) (Fin 100))))))"

text \<open>The local \<open>momento_crescimento\<close> of \<open>calcular_projecao_crescimento\<close>.\<close>

definition momento_crescimento :: "dataframe \<Rightarrow> erro + pyfloat" where
  "momento_crescimento df =
     bindE (coluna df ''Media_Movel_50'') (\<lambda>c.
     bindE (iloc c (- 1)) (\<lambda>a.
     bindE (iloc c (- 5)) (\<lambda>b.
       Inr (fdiv (fsub a b) (Fin 5)))))"

definition calcular_projecao_crescimento :: "dataframe \<Rightarrow> erro + pyfloat" where
  "calcular_projecao_crescimento df =
     bindE (momento_crescimento df) (\<lambda>m.
     bindE (coluna df ''Volatilidade'') (\<lambda>cv.
     bindE (iloc cv (- 1)) (\<lambda>v.
       let crescimento_projetado = fmul m (fsub (Fin 1) v);
           crescimento_projetado =
             (if flt crescimento_projetado (Fin 0) then Fin 0 else crescimento_projetado)
       in Inr (fmul crescimento_projetado (Fin 100)))))"

text \<open>
  What \<open>main\<close> runs for one instrument, without the display: the metrics, then the trend,
  then the projection, on the same frame.  The result comes with the store the run leaves.
\<close>

definition analisar_ativo ::
  "ref \<Rightarrow> store \<Rightarrow> store \<times> (erro + (dataframe \<times> (string \<times> seta \<times> pyfloat) \<times> pyfloat))" where
  "analisar_ativo r s =
     (case calcular_metricas r s of
        Inl e \<Rightarrow> (s, Inl e)
      | Inr (r', s') \<Rightarrow>
          (s', bindE (analisar_tendencia (s' r')) (\<lambda>t.
               bindE (calcular_projecao_crescimento (s' r')) (\<lambda>p.
                 Inr (s' r', t, p)))))"

section \<open>Closed forms and facts about the operations\<close>

lemma corpo_closed:
  "calcular_metricas_corpo df =
     (case df ''Adj Close'' of None \<Rightarrow> Inl KeyError
      | Some adj \<Rightarrow> Inr (df(''Retorno_Diario'' \<mapsto> pct_change adj,
             ''Retorno_Acumulado'' \<mapsto> map (\<lambda>x. fsub x (Fin 1)) (cumprod (map (\<lambda>x. fadd (Fin 1) x) (pct_change adj))),
             ''Media_Movel_50'' \<mapsto> rolling_mean 50 adj,
             ''Media_Movel_200'' \<mapsto> rolling_mean 200 adj,
             ''Volatilidade'' \<mapsto> map (\<lambda>x. fmul x (Fin (sqrt 252))) (rolling_std 30 (pct_change adj)))))"
  by (simp add: calcular_metricas_corpo_def bindE_def coluna_def Let_def split: option.splits)

lemma metricas_closed:
  "calcular_metricas r s =
     (case s r ''Adj Close'' of None \<Rightarrow> Inl KeyError
      | Some adj \<Rightarrow> Inr (r, s(r := (s r)(''Retorno_Diario'' \<mapsto> pct_change adj,
             ''Retorno_Acumulado'' \<mapsto> map (\<lambda>x. fsub x (Fin 1)) (cumprod (map (\<lambda>x. fadd (Fin 1) x) (pct_change adj))),
             ''Media_Movel_50'' \<mapsto> rolling_mean 50 adj,
             ''Media_Movel_200'' \<mapsto> rolling_mean 200 adj,
             ''Volatilidade'' \<mapsto> map (\<lambda>x. fmul x (Fin (sqrt 252))) (rolling_std 30 (pct_change adj))))))"
  by (simp add: calcular_metricas_def corpo_closed bindE_def split: option.splits)

lemma upd5_idem:
  "(m(a \<mapsto> x, b \<mapsto> y, c \<mapsto> z, d \<mapsto> u, e \<mapsto> v))(a \<mapsto> x, b \<mapsto> y, c \<mapsto> z, d \<mapsto> u, e \<mapsto> v)
     = m(a \<mapsto> x, b \<mapsto> y, c \<mapsto> z, d \<mapsto> u, e \<mapsto> v)"
  by (rule ext) simp

lemma metricas_idem:
  assumes "calcular_metricas r s = Inr (r', s')"
  shows "calcular_metricas r' s' = Inr (r', s')"
proof (cases "s r ''Adj Close''")
  case None
  with assms show ?thesis by (simp add: metricas_closed)
next
  case (Some adj)
  let ?d = "(s r)(''Retorno_Diario'' \<mapsto> pct_change adj,
             ''Retorno_Acumulado'' \<mapsto> map (\<lambda>x. fsub x (Fin 1)) (cumprod (map (\<lambda>x. fadd (Fin 1) x) (pct_change adj))),
             ''Media_Movel_50'' \<mapsto> rolling_mean 50 adj,
             ''Media_Movel_200'' \<mapsto> rolling_mean 200 adj,
             ''Volatilidade'' \<mapsto> map (\<lambda>x. fmul x (Fin (sqrt 252))) (rolling_std 30 (pct_change adj)))"
  from assms Some have r': "r' = r" and s': "s' = s(r := ?d)"
    by (auto simp: metricas_closed)
  have adj: "s' r ''Adj Close'' = Some adj"
    using Some by (simp add: s')
  have "calcular_metricas r s' = Inr (r, s'(r := ?d))"
    unfolding metricas_closed [of r s'] adj
    by (simp add: s' upd5_idem)
  also have "s'(r := ?d) = s'"
    by (simp add: s')
  finally show ?thesis
    by (simp add: r')
qed


lemma fadd_NaN_right: "fadd x NaN = NaN"
  by (cases x) simp_all

lemma fmul_NaN_right: "fmul x NaN = NaN"
  by (cases x) simp_all

lemma fsum_Fin: "fsum (map Fin qs) = Fin (sum_list qs)"
  by (induction qs) simp_all

lemma fsum_zeros: "fsum (replicate n (Fin 0)) = Fin 0"
  by (induction n) simp_all

lemma filter_notna_Fin: "filter notna (map Fin qs) = map Fin qs"
  by (induction qs) (simp_all add: notna_def)

lemma janela_map: "janela W t (map f xs) = map f (janela W t xs)"
  by (simp add: janela_def take_map drop_map)

lemma length_janela: "t < length xs \<Longrightarrow> length (janela W t xs) = min W (t + 1)"
  by (auto simp: janela_def)

lemma janela_full: "W \<le> t + 1 \<Longrightarrow> t < length xs \<Longrightarrow> janela W t xs = take W (drop (t + 1 - W) xs)"
  by (simp add: janela_def drop_take)

lemma mean_of_short: "length w < W \<Longrightarrow> mean_of W w = NaN"
proof -
  assume "length w < W"
  moreover have "length (filter notna w) \<le> length w" by simp
  ultimately have "length (filter notna w) < W" by linarith
  then show ?thesis by (simp add: mean_of_def Let_def)
qed

lemma mean_of_Fin:
  "0 < W \<Longrightarrow> W \<le> length qs \<Longrightarrow> mean_of W (map Fin qs) = Fin (sum_list qs / real (length qs))"
proof -
  assume "0 < W" and "W \<le> length qs"
  then have "qs \<noteq> []" by auto
  with \<open>W \<le> length qs\<close> show ?thesis
    by (simp add: mean_of_def filter_notna_Fin fsum_Fin)
qed

lemma length_rolling_mean: "length (rolling_mean W xs) = length xs"
  by (simp add: rolling_mean_def)

lemma rolling_mean_nth: "t < length xs \<Longrightarrow> rolling_mean W xs ! t = mean_of W (janela W t xs)"
  by (simp add: rolling_mean_def)

lemma rolling_mean_warmup: "t < length xs \<Longrightarrow> t + 1 < W \<Longrightarrow> rolling_mean W xs ! t = NaN"
  by (simp add: rolling_mean_nth mean_of_short length_janela)

lemma rolling_mean_Fin:
  assumes "0 < W" and "W \<le> t + 1" and "t < length qs"
  shows "rolling_mean W (map Fin qs) ! t = Fin (sum_list (take W (drop (t + 1 - W) qs)) / real W)"
proof -
  have len: "length (janela W t qs) = W"
    using assms by (simp add: length_janela)
  have "rolling_mean W (map Fin qs) ! t = mean_of W (map Fin (janela W t qs))"
    using assms by (simp add: rolling_mean_nth janela_map)
  also have "\<dots> = Fin (sum_list (janela W t qs) / real W)"
    using mean_of_Fin [of W "janela W t qs"] assms len by simp
  finally show ?thesis
    using assms by (simp add: janela_full)
qed

lemma rolling_mean_short: "length xs < W \<Longrightarrow> rolling_mean W xs = replicate (length xs) NaN"
  by (rule nth_equalityI) (simp_all add: length_rolling_mean rolling_mean_warmup)

lemma std_of_short: "length w < W \<Longrightarrow> std_of W w = NaN"
proof -
  assume "length w < W"
  moreover have "length (filter notna w) \<le> length w" by simp
  ultimately have "length (filter notna w) < W" by linarith
  then show ?thesis by (simp add: std_of_def Let_def)
qed

lemma std_of_zeros: "1 < W \<Longrightarrow> std_of W (replicate W (Fin 0)) = Fin 0"
  by (simp add: std_of_def notna_def fsum_zeros fsub_def Let_def)

lemma length_rolling_std: "length (rolling_std W xs) = length xs"
  by (simp add: rolling_std_def)

lemma rolling_std_nth: "t < length xs \<Longrightarrow> rolling_std W xs ! t = std_of W (janela W t xs)"
  by (simp add: rolling_std_def)

lemma rolling_std_short: "length xs < W \<Longrightarrow> rolling_std W xs = replicate (length xs) NaN"
  by (rule nth_equalityI) (simp_all add: rolling_std_def std_of_short length_janela)

lemma filter_upt_ge: "filter (\<lambda>t. k \<le> t) [0..<n] = [k..<n]"
proof (induction n)
  case 0
  then show ?case by simp
next
  case (Suc n)
  then show ?case by (cases "k \<le> n") (auto simp: not_le)
qed

lemma count_defined:
  assumes "length ma = n" and "\<forall>t<n. notna (ma ! t) = (k \<le> t)"
  shows "length (filter notna ma) = n - k"
proof -
  have "ma = map (\<lambda>t. ma ! t) [0..<n]"
    unfolding assms(1) [symmetric] by (simp add: map_nth)
  then have "filter notna ma = filter notna (map (\<lambda>t. ma ! t) [0..<n])"
    by simp
  also have "\<dots> = map (\<lambda>t. ma ! t) (filter (\<lambda>t. notna (ma ! t)) [0..<n])"
    by (simp add: filter_map comp_def)
  also have "filter (\<lambda>t. notna (ma ! t)) [0..<n] = filter (\<lambda>t. k \<le> t) [0..<n]"
    using assms(2) by (intro filter_cong) auto
  finally show ?thesis
    by (simp add: filter_upt_ge)
qed

lemma length_ffill_from: "length (ffill_from v xs) = length xs"
  by (induction xs arbitrary: v) simp_all


lemma zip_take_length_left: "zip xs (take (length xs) ys) = zip xs ys"
proof (induction xs arbitrary: ys)
  case Nil
  then show ?case by simp
next
  case (Cons x xs)
  then show ?case by (cases ys) simp_all
qed

lemma pct_change_alt:
  "pct_change xs = map2 (\<lambda>a b. fsub (fdiv a b) (Fin 1)) (ffill xs) (NaN # ffill xs)"
  by (simp add: pct_change_def shift1_def Let_def zip_take_length_left)

lemma length_pct_change: "length (pct_change xs) = length xs"
  by (simp add: pct_change_alt ffill_def length_ffill_from)












lemma iloc_last: "xs \<noteq> [] \<Longrightarrow> iloc xs (- 1) = Inr (last xs)"
  by (cases xs rule: rev_cases) (simp_all add: iloc_def nat_add_distrib)

lemma iloc_empty: "iloc [] i = Inl IndexError"
  by (simp add: iloc_def)

lemma iloc_minus5: "5 \<le> length xs \<Longrightarrow> iloc xs (- 5) = Inr (xs ! (length xs - 5))"
  by (simp add: iloc_def nat_diff_distrib')

lemma iloc_minus5_short: "length xs < 5 \<Longrightarrow> iloc xs (- 5) = Inl IndexError"
  by (simp add: iloc_def)

lemma tendencia_latest:
  assumes "df ''Media_Movel_50'' = Some c50" and "df ''Media_Movel_200'' = Some c200"
    and "c50 \<noteq> []" and "c200 \<noteq> []"
  shows "analisar_tendencia df =
     (if fgt (last c50) (last c200)
      then Inr (''Crescimento'', SetaCima, fmul (fsub (fdiv (last c50) (last c200)) (Fin 1)) (Fin 100))
      else Inr (''Queda'', SetaBaixo, fmul (fsub (Fin 1) (fdiv (last c50) (last c200))) (Fin 100)))"
  using assms by (simp add: analisar_tendencia_def bindE_def coluna_def iloc_last)

lemma momento_closed:
  assumes "df ''Media_Movel_50'' = Some c" and "5 \<le> length c"
  shows "momento_crescimento df = Inr (fdiv (fsub (last c) (c ! (length c - 5))) (Fin 5))"
proof -
  have "c \<noteq> []" using assms(2) by auto
  then show ?thesis
    using assms by (simp add: momento_crescimento_def bindE_def coluna_def iloc_last iloc_minus5)
qed

lemma projecao_closed:
  assumes "momento_crescimento df = Inr m" and "df ''Volatilidade'' = Some cv" and "cv \<noteq> []"
  shows "calcular_projecao_crescimento df =
     Inr (fmul (if flt (fmul m (fsub (Fin 1) (last cv))) (Fin 0) then Fin 0
                else fmul m (fsub (Fin 1) (last cv))) (Fin 100))"
  using assms by (simp add: calcular_projecao_crescimento_def bindE_def coluna_def iloc_last Let_def)

lemma projecao_nan:
  assumes "df ''Media_Movel_50'' = Some c" and "5 \<le> length c"
    and "df ''Volatilidade'' = Some cv" and "cv \<noteq> []"
    and "last c = NaN \<or> c ! (length c - 5) = NaN \<or> last cv = NaN"
  shows "calcular_projecao_crescimento df = Inr NaN"
proof -
  let ?m = "fdiv (fsub (last c) (c ! (length c - 5))) (Fin 5)"
  have m: "momento_crescimento df = Inr ?m"
    using assms(1,2) by (rule momento_closed)
  have "fmul ?m (fsub (Fin 1) (last cv)) = NaN"
    using assms(5)
    by (cases "last c"; cases "c ! (length c - 5)"; cases "last cv")
       (auto simp: fsub_def inf_sign_def)
  then show ?thesis
    using projecao_closed [OF m assms(3,4)] by simp
qed

section \<open>The claims\<close>



text \<open>
  Claim C2.  When the momentum term \<open>m\<close> and the latest volatility \<open>v\<close> are finite, the
  projection returned is a finite percentage that is not negative; it is exactly 0 when
  \<open>m * (1 - v)\<close> is negative, and \<open>m * (1 - v) * 100\<close> otherwise.
\<close>

theorem C2_projecao_nao_negativa:
  assumes "momento_crescimento df = Inr (Fin m)"
    and "df ''Volatilidade'' = Some cv" and "cv \<noteq> []" and "last cv = Fin v"
  shows "\<exists>g. calcular_projecao_crescimento df = Inr (Fin g) \<and> 0 \<le> g
           \<and> (m * (1 - v) < 0 \<longrightarrow> g = 0)
           \<and> (\<not> m * (1 - v) < 0 \<longrightarrow> g = m * (1 - v) * 100)"
  using assms by (simp add: projecao_closed fsub_def)

text \<open>
  A momentum of -5 under a volatility of 0.2: the product -4 is clamped, the result is 0.
\<close>

theorem C2_projecao_nao_negativa_witness:
  "calcular_projecao_crescimento
     [''Media_Movel_50'' \<mapsto> [Fin 125, Fin 120, Fin 115, Fin 110, Fin 100],
      ''Volatilidade'' \<mapsto> [Fin (2 / 10)]] = Inr (Fin 0)"
proof -
  let ?df = "[''Media_Movel_50'' \<mapsto> [Fin 125, Fin 120, Fin 115, Fin 110, Fin 100],
      ''Volatilidade'' \<mapsto> [Fin (2 / 10)]]"
  have "momento_crescimento ?df = Inr (Fin (- 5))"
    by (simp add: momento_closed fsub_def)
  from C2_projecao_nao_negativa [OF this, of "[Fin (2 / 10)]" "2 / 10"]
  show ?thesis by auto
qed




text \<open>
  Claim C4 on the prices 1, 2, ..., 55.  The 50-day average is 30.5 at the latest date
  (position 54) and 25.5 five dates before (position 49), so the claim gives the momentum
  \<open>(30.5 - 25.5) / 5 = 1\<close>.  The code reads \<open>iloc[-5]\<close>, which is position 50, four dates
  before the latest, and returns \<open>(30.5 - 26.5) / 5 = 0.8\<close>.
\<close>

theorem C4_momento_quatro_periodos:
  "bindE (calcular_metricas_corpo [''Adj Close'' \<mapsto> map (\<lambda>n. Fin (real n)) [1..<56]])
       momento_crescimento = Inr (Fin (8 / 10))
   \<and> rolling_mean 50 (map (\<lambda>n. Fin (real n)) [1..<56]) ! 54 = Fin (61 / 2)
   \<and> rolling_mean 50 (map (\<lambda>n. Fin (real n)) [1..<56]) ! (54 - 5) = Fin (51 / 2)
   \<and> (61 / 2 - 51 / 2) / 5 = (1::real)"
proof -
  let ?c = "rolling_mean 50 (map (\<lambda>n. Fin (real n)) [1..<56])"
  have len: "length ?c = 55"
    by (simp add: length_rolling_mean)
  have c54: "?c ! 54 = Fin (61 / 2)"
    by code_simp
  have c50: "?c ! 50 = Fin (53 / 2)"
    by code_simp
  have c49: "?c ! 49 = Fin (51 / 2)"
    by code_simp
  have "?c \<noteq> []"
    using len by auto
  then have lst: "last ?c = Fin (61 / 2)"
    using c54 len by (simp add: last_conv_nth)
  have "momento_crescimento
          ([''Adj Close'' \<mapsto> map (\<lambda>n. Fin (real n)) [1..<56]]
             (''Retorno_Diario'' \<mapsto> rd, ''Retorno_Acumulado'' \<mapsto> ra, ''Media_Movel_50'' \<mapsto> ?c,
              ''Media_Movel_200'' \<mapsto> m200, ''Volatilidade'' \<mapsto> vol)) = Inr (Fin (8 / 10))" for rd ra m200 vol
    using momento_closed [of _ ?c] len lst c50 by (simp add: fsub_def)
  then show ?thesis
    using c54 c49 by (simp add: corpo_closed bindE_def)
qed

text \<open>
  Claim C5.  For a price column of finite values, the 50-day moving average has the
  length of the prices, no value at the dates before the 50th, and from the 50th date on
  the mean of the 50 prices that end at the date.  So a series shorter than 50 has no
  average at all, and a series of length at least 50 has exactly \<open>length - 49\<close> of them.
\<close>

theorem C5_media_movel_50:
  assumes "s r ''Adj Close'' = Some (map Fin qs)"
  shows "\<exists>s' ma. calcular_metricas r s = Inr (r, s')
           \<and> s' r ''Media_Movel_50'' = Some ma
           \<and> length ma = length qs
           \<and> (\<forall>t<length qs. t < 49 \<longrightarrow> ma ! t = NaN)
           \<and> (\<forall>t<length qs. 49 \<le> t \<longrightarrow>
                 ma ! t = Fin (sum_list (take 50 (drop (t - 49) qs)) / 50))
           \<and> (length qs < 50 \<longrightarrow> filter notna ma = [])
           \<and> (50 \<le> length qs \<longrightarrow> length (filter notna ma) = length qs - 49)"
proof -
  let ?ma = "rolling_mean 50 (map Fin qs)"
  have low: "\<forall>t<length qs. t < 49 \<longrightarrow> ?ma ! t = NaN"
    by (simp add: rolling_mean_warmup)
  have high: "\<forall>t<length qs. 49 \<le> t \<longrightarrow>
      ?ma ! t = Fin (sum_list (take 50 (drop (t - 49) qs)) / 50)"
    using rolling_mean_Fin [of 50 _ qs] by simp
  have "\<forall>t<length qs. notna (?ma ! t) = (49 \<le> t)"
    using low high by (auto simp: notna_def not_le)
  then have cnt: "length (filter notna ?ma) = length qs - 49"
    by (intro count_defined) (simp_all add: length_rolling_mean)
  let ?s' = "s(r := (s r)(''Retorno_Diario'' \<mapsto> pct_change (map Fin qs),
             ''Retorno_Acumulado'' \<mapsto> map (\<lambda>x. fsub x (Fin 1)) (cumprod (map (\<lambda>x. fadd (Fin 1) x) (pct_change (map Fin qs)))),
             ''Media_Movel_50'' \<mapsto> ?ma,
             ''Media_Movel_200'' \<mapsto> rolling_mean 200 (map Fin qs),
             ''Volatilidade'' \<mapsto> map (\<lambda>x. fmul x (Fin (sqrt 252))) (rolling_std 30 (pct_change (map Fin qs)))))"
  have run: "calcular_metricas r s = Inr (r, ?s')"
    using assms by (simp add: metricas_closed)
  have col: "?s' r ''Media_Movel_50'' = Some ?ma"
    by simp
  have len: "length ?ma = length qs"
    by (simp add: length_rolling_mean)
  have none: "length qs < 50 \<longrightarrow> filter notna ?ma = []"
  proof
    assume "length qs < 50"
    with cnt have "length (filter notna ?ma) = 0" by linarith
    then show "filter notna ?ma = []" by simp
  qed
  show ?thesis
    using run col len low high none cnt by blast
qed

text \<open>
  Fifty prices equal to 1: one average, at the last date.
\<close>

theorem C5_media_movel_50_witness:
  "\<exists>s' ma. calcular_metricas 0 (\<lambda>_. [''Adj Close'' \<mapsto> map Fin (replicate 50 1)]) = Inr (0, s')
      \<and> s' 0 ''Media_Movel_50'' = Some ma \<and> length ma = 50
      \<and> ma ! 0 = NaN \<and> ma ! 49 = Fin 1 \<and> length (filter notna ma) = 1"
proof -
  obtain s' ma where run: "calcular_metricas 0 (\<lambda>_. [''Adj Close'' \<mapsto> map Fin (replicate 50 1)]) = Inr (0, s')"
    and col: "s' 0 ''Media_Movel_50'' = Some ma"
    and len: "length ma = length (replicate 50 (1::real))"
    and low: "\<forall>t<length (replicate 50 (1::real)). t < 49 \<longrightarrow> ma ! t = NaN"
    and high: "\<forall>t<length (replicate 50 (1::real)). 49 \<le> t \<longrightarrow>
                 ma ! t = Fin (sum_list (take 50 (drop (t - 49) (replicate 50 (1::real)))) / 50)"
    and cnt: "50 \<le> length (replicate 50 (1::real)) \<longrightarrow>
                 length (filter notna ma) = length (replicate 50 (1::real)) - 49"
    using C5_media_movel_50 [of "\<lambda>_. [''Adj Close'' \<mapsto> map Fin (replicate 50 1)]" 0 "replicate 50 1"]
    by auto
  from low have "ma ! 0 = NaN" by simp
  moreover from high have "ma ! 49 = Fin 1" by (simp add: sum_list_replicate)
  moreover from cnt have "length (filter notna ma) = 1" by simp
  ultimately show ?thesis
    using run col len by auto
qed

text \<open>
  Claim C6 says that the classifier reports no direction when an average is missing.  Ten
  days of prices leave both averages without a value, and the classifier still returns
  the direction "Queda".
\<close>

theorem C6_counterexample:
  "bindE (calcular_metricas_corpo [''Adj Close'' \<mapsto> replicate 10 (Fin 100)]) analisar_tendencia
     = Inr (''Queda'', SetaBaixo, NaN)"
  by (simp add: corpo_closed bindE_def rolling_mean_short analisar_tendencia_def coluna_def iloc_def fgt_def fsub_def)

text \<open>
  Claim C6, as the code has it.  When the 50-day or the 200-day moving average has no
  value at the latest date, the classifier does not fail: the comparison with \<open>NaN\<close> is
  false, so it answers "Queda", with \<open>NaN\<close> as the percentage.
\<close>

theorem C6_tendencia_indefinida:
  assumes "df ''Media_Movel_50'' = Some c50" and "df ''Media_Movel_200'' = Some c200"
    and "c50 \<noteq> []" and "c200 \<noteq> []"
    and "last c50 = NaN \<or> last c200 = NaN"
  shows "analisar_tendencia df = Inr (''Queda'', SetaBaixo, NaN)"
proof -
  have "\<not> fgt (last c50) (last c200)"
    using assms(5) by (cases "last c50"; cases "last c200") (auto simp: fgt_def)
  moreover have "fdiv (last c50) (last c200) = NaN"
    using assms(5) by (cases "last c50"; cases "last c200") auto
  ultimately show ?thesis
    using assms(1-4) by (simp add: tendencia_latest fsub_def)
qed

text \<open>
  A frame whose 200-day average is missing at the latest date.
\<close>

theorem C6_tendencia_indefinida_witness:
  "analisar_tendencia [''Media_Movel_50'' \<mapsto> [NaN, Fin 3], ''Media_Movel_200'' \<mapsto> [NaN, NaN]]
     = Inr (''Queda'', SetaBaixo, NaN)"
  using C6_tendencia_indefinida [of "[''Media_Movel_50'' \<mapsto> [NaN, Fin 3], ''Media_Movel_200'' \<mapsto> [NaN, NaN]]"
     "[NaN, Fin 3]" "[NaN, NaN]"]
  by simp

text \<open>
  Claim C7 on a series of 54 dates, 23 at the price 100 and then 31 at the price 200.  The
  50-day average of the date five periods before the latest (position 48) is missing, so
  the claim expects no percentage.  The code reads the average four periods before the
  latest (position 49), which has a value, and returns 160.
\<close>

theorem C7_serie_de_54_dias:
  "bindE (calcular_metricas_corpo [''Adj Close'' \<mapsto> replicate 23 (Fin 100) @ replicate 31 (Fin 200)])
       calcular_projecao_crescimento = Inr (Fin 160)
   \<and> length (rolling_mean 50 (replicate 23 (Fin 100) @ replicate 31 (Fin 200))) = 54
   \<and> rolling_mean 50 (replicate 23 (Fin 100) @ replicate 31 (Fin 200)) ! (53 - 5) = NaN"
proof -
  let ?adj = "replicate 23 (Fin 100) @ replicate 31 (Fin 200)"
  let ?c = "rolling_mean 50 ?adj"
  let ?v = "map (\<lambda>x. fmul x (Fin (sqrt 252))) (rolling_std 30 (pct_change ?adj))"
  have len: "length ?c = 54"
    by (simp add: length_rolling_mean)
  have c53: "?c ! 53 = Fin 162"
    by code_simp
  have c49: "?c ! 49 = Fin 154"
    by code_simp
  have c48: "?c ! 48 = NaN"
    by (simp add: rolling_mean_warmup)
  have "?c \<noteq> []"
    using len by auto
  then have lst: "last ?c = Fin 162"
    using c53 len by (simp add: last_conv_nth)
  have lenv: "length ?v = 54"
    by (simp add: length_rolling_std length_pct_change)
  have win: "janela 30 53 (pct_change ?adj) = replicate 30 (Fin 0)"
    by code_simp
  have "rolling_std 30 (pct_change ?adj) ! 53 = Fin 0"
    by (simp add: rolling_std_nth length_pct_change win std_of_zeros)
  then have v53: "?v ! 53 = Fin 0"
    by (simp add: length_rolling_std length_pct_change)
  have "?v \<noteq> []"
    using lenv by auto
  then have lstv: "last ?v = Fin 0"
    using v53 lenv by (simp add: last_conv_nth)
  have "calcular_projecao_crescimento
          ([''Adj Close'' \<mapsto> ?adj]
             (''Retorno_Diario'' \<mapsto> rd, ''Retorno_Acumulado'' \<mapsto> ra, ''Media_Movel_50'' \<mapsto> ?c,
              ''Media_Movel_200'' \<mapsto> m200, ''Volatilidade'' \<mapsto> ?v)) = Inr (Fin 160)" for rd ra m200
  proof -
    let ?df = "[''Adj Close'' \<mapsto> ?adj]
             (''Retorno_Diario'' \<mapsto> rd, ''Retorno_Acumulado'' \<mapsto> ra, ''Media_Movel_50'' \<mapsto> ?c,
              ''Media_Movel_200'' \<mapsto> m200, ''Volatilidade'' \<mapsto> ?v)"
    have m: "momento_crescimento ?df = Inr (Fin (8 / 5))"
      using momento_closed [of ?df ?c] len lst c49 by (simp add: fsub_def)
    have "?df ''Volatilidade'' = Some ?v" by simp
    from m this \<open>?v \<noteq> []\<close>
    have "calcular_projecao_crescimento ?df =
       Inr (fmul (if flt (fmul (Fin (8 / 5)) (fsub (Fin 1) (last ?v))) (Fin 0) then Fin 0
                  else fmul (Fin (8 / 5)) (fsub (Fin 1) (last ?v))) (Fin 100))"
      by (rule projecao_closed)
    also have "\<dots> = Inr (Fin 160)"
      unfolding lstv by (simp add: fsub_def)
    finally show ?thesis .
  qed
  then have "bindE (calcular_metricas_corpo [''Adj Close'' \<mapsto> ?adj]) calcular_projecao_crescimento
      = Inr (Fin 160)"
    by (simp add: corpo_closed bindE_def)
  then show ?thesis
    using len c48 by simp
qed




text \<open>
  Claim C9 says that the frame of the caller is left as it was.  After the call on a frame
  with the only column "Adj Close", the frame at the same address has the column
  "Retorno_Diario", which it did not have before.
\<close>

theorem C9_counterexample:
  "calcular_metricas 0 (\<lambda>_. [''Adj Close'' \<mapsto> [Fin 100]]) =
     Inr (0, (\<lambda>_. [''Adj Close'' \<mapsto> [Fin 100]])
       (0 := [''Adj Close'' \<mapsto> [Fin 100], ''Retorno_Diario'' \<mapsto> [NaN],
              ''Retorno_Acumulado'' \<mapsto> [NaN], ''Media_Movel_50'' \<mapsto> [NaN],
              ''Media_Movel_200'' \<mapsto> [NaN], ''Volatilidade'' \<mapsto> [NaN]]))
   \<and> ((\<lambda>_. [''Adj Close'' \<mapsto> [Fin 100]])
       (0 := [''Adj Close'' \<mapsto> [Fin 100], ''Retorno_Diario'' \<mapsto> [NaN],
              ''Retorno_Acumulado'' \<mapsto> [NaN], ''Media_Movel_50'' \<mapsto> [NaN],
              ''Media_Movel_200'' \<mapsto> [NaN], ''Volatilidade'' \<mapsto> [NaN]])) (0::nat) ''Retorno_Diario''
        = Some [NaN]
   \<and> (\<lambda>_::nat. [''Adj Close'' \<mapsto> [Fin 100]]) 0 ''Retorno_Diario'' = None"
proof -
  have "pct_change [Fin 100] = [NaN]"
    by (simp add: pct_change_alt ffill_def fsub_def)
  moreover have "cumprod [NaN] = [NaN]"
    by (simp add: cumprod_def)
  ultimately show ?thesis
    by (simp add: metricas_closed rolling_mean_short rolling_std_short fsub_def)
qed

text \<open>
  Claim C9, as the code has it.  The deriver returns the address it was given and writes
  the five derived columns into the frame at that address.  Every other frame of the
  store, the column "Adj Close" and every column that is not one of the five are left
  unchanged.
\<close>

theorem C9_mesmo_objeto:
  assumes "calcular_metricas r s = Inr (r', s')"
  shows "r' = r
       \<and> (\<forall>a. a \<noteq> r \<longrightarrow> s' a = s a)
       \<and> s' r ''Adj Close'' = s r ''Adj Close''
       \<and> (\<forall>c. c \<notin> {''Retorno_Diario'', ''Retorno_Acumulado'', ''Media_Movel_50'',
                      ''Media_Movel_200'', ''Volatilidade''} \<longrightarrow> s' r c = s r c)
       \<and> dom (s' r) = dom (s r) \<union> {''Retorno_Diario'', ''Retorno_Acumulado'', ''Media_Movel_50'',
                      ''Media_Movel_200'', ''Volatilidade''}"
  using assms by (auto simp: metricas_closed split: option.splits)

text \<open>
  A frame with one price.
\<close>

theorem C9_mesmo_objeto_witness:
  "calcular_metricas 0 (\<lambda>_. [''Adj Close'' \<mapsto> [Fin 100]]) =
     Inr (0, (\<lambda>_. [''Adj Close'' \<mapsto> [Fin 100]])
       (0 := [''Adj Close'' \<mapsto> [Fin 100], ''Retorno_Diario'' \<mapsto> [NaN],
              ''Retorno_Acumulado'' \<mapsto> [NaN], ''Media_Movel_50'' \<mapsto> [NaN],
              ''Media_Movel_200'' \<mapsto> [NaN], ''Volatilidade'' \<mapsto> [NaN]]))
   \<and> dom [''Adj Close'' \<mapsto> [Fin 100], ''Retorno_Diario'' \<mapsto> [NaN],
              ''Retorno_Acumulado'' \<mapsto> [NaN], ''Media_Movel_50'' \<mapsto> [NaN],
              ''Media_Movel_200'' \<mapsto> [NaN], ''Volatilidade'' \<mapsto> [NaN]]
       = {''Adj Close'', ''Retorno_Diario'', ''Retorno_Acumulado'', ''Media_Movel_50'',
          ''Media_Movel_200'', ''Volatilidade''}"
proof -
  let ?s = "\<lambda>_::nat. [''Adj Close'' \<mapsto> [Fin 100]]"
  let ?d = "[''Adj Close'' \<mapsto> [Fin 100], ''Retorno_Diario'' \<mapsto> [NaN],
              ''Retorno_Acumulado'' \<mapsto> [NaN], ''Media_Movel_50'' \<mapsto> [NaN],
              ''Media_Movel_200'' \<mapsto> [NaN], ''Volatilidade'' \<mapsto> [NaN]]"
  have "pct_change [Fin 100] = [NaN]"
    by (simp add: pct_change_alt ffill_def fsub_def)
  moreover have "cumprod [NaN] = [NaN]"
    by (simp add: cumprod_def)
  ultimately have run: "calcular_metricas 0 ?s = Inr (0, ?s(0 := ?d))"
    by (simp add: metricas_closed rolling_mean_short rolling_std_short fsub_def)
  from C9_mesmo_objeto [OF run] have "dom ?d = {''Adj Close'', ''Retorno_Diario'',
      ''Retorno_Acumulado'', ''Media_Movel_50'', ''Media_Movel_200'', ''Volatilidade''}"
    by auto
  with run show ?thesis
    by (intro conjI)
qed

text \<open>
  Claim C10.  Running the analysis of an instrument a second time, on the store that the
  first run left (the frame now holds the derived columns), leaves the same store and
  gives the same result: the same metric frame, the same trend and the same projection,
  or the same exception.
\<close>

theorem C10_segunda_execucao:
  "analisar_ativo r (fst (analisar_ativo r s)) = analisar_ativo r s"
proof (cases "calcular_metricas r s")
  case (Inl e)
  then show ?thesis by (simp add: analisar_ativo_def)
next
  case (Inr p)
  obtain r' s' where p: "p = (r', s')" by (cases p)
  with Inr have run: "calcular_metricas r s = Inr (r', s')" by simp
  then have r': "r' = r"
    by (auto simp: metricas_closed split: option.splits)
  from metricas_idem [OF run] have again: "calcular_metricas r s' = Inr (r, s')"
    by (simp add: r')
  show ?thesis
    using run again by (simp add: analisar_ativo_def r')
qed

end
